theory Spec2Isabelle
  imports Main "HOL-Library.Word"
begin

section \<open>The remote allocator of RemoteMem.cpp\<close>

subsection \<open>Data\<close>

text \<open>
  \<^verbatim>\<open>storage_id_t\<close> is \<^verbatim>\<open>uint64_t\<close> (Remote.h, line 15). \<^verbatim>\<open>size_t\<close> and a
  \<^verbatim>\<open>void*\<close> are 64 bits wide on the platforms the host framework builds for.
  \<^verbatim>\<open>c10::DeviceIndex\<close> is declared by the host framework as a signed 8-bit integer; it is
  read with \<open>sint\<close>.
\<close>

type_synonym storage_id_t = "64 word"
type_synonym size_t = "64 word"
type_synonym DeviceIndex = "8 word"

datatype DeviceType = CPU | CUDA | MPS | Meta | PrivateUse1

datatype Device = Device (type: DeviceType) (index: DeviceIndex)

text \<open>A data pointer: the address it holds, nothing else. The source never reads through it.\<close>

datatype void_ptr = Ptr (addr: "64 word")

text \<open>\<^verbatim>\<open>reinterpret_cast<void*>(storage_id)\<close> and \<^verbatim>\<open>reinterpret_cast<storage_id_t>(ptr)\<close>.\<close>

definition ptr_of_storage_id :: "storage_id_t \<Rightarrow> void_ptr" where
  "ptr_of_storage_id storage_id = Ptr storage_id"

definition storage_id_of_ptr :: "void_ptr \<Rightarrow> storage_id_t" where
  "storage_id_of_ptr p = addr p"

text \<open>The deleter of a data pointer: \<^verbatim>\<open>&ReportAndDelete<kFreeStorageMethod>\<close>.\<close>

datatype DeleterFnPtr = ReportAndDelete_kFreeStorageMethod

record DataPtr =
  data :: void_ptr
  ctx :: void_ptr
  deleter :: DeleterFnPtr
  device :: Device

subsection \<open>Errors\<close>

text \<open>
  \<^verbatim>\<open>TORCH_CHECK(cond, args...)\<close> throws a \<^verbatim>\<open>c10::Error\<close> whose message is made of its
  arguments in order; the error keeps the arguments as the source passes them. An exception
  that leaves a Python callback (or the conversion of its result) is a \<open>py_exception\<close>.
\<close>

datatype msg_arg = Str string | U64 "64 word" | Size size_t | Idx DeviceIndex

datatype py_exception = PyException string

datatype error = TorchCheck "msg_arg list" | PyRaised py_exception

subsection \<open>The Python callbacks\<close>

text \<open>
  \<^verbatim>\<open>get_method(name)(args...).cast<T>()\<close> runs a method of the Python side: it may change
  the Python side's state \<open>'s\<close>, and it either raises or gives a value of type \<open>T\<close>.
  Each field is one method together with the conversion of its result, so a result that
  does not convert to \<open>T\<close> is among the raises. The methods named by
  \<^verbatim>\<open>kGenerateStorageIdMethod\<close>, \<^verbatim>\<open>kCreateStorageMethod\<close> and \<^verbatim>\<open>kFreeStorageMethod\<close> keep
  the names of these constants. The one exception is \<open>deviceCount\<close>: its field gives the
  count as the Python side reports it, an unbounded integer, and
  \<open>validate_device_index\<close> converts it itself, inside its \<^verbatim>\<open>try\<close>.
\<close>

record 's backend =
  getDevice :: "'s \<Rightarrow> (py_exception + DeviceIndex) \<times> 's"
  kGenerateStorageIdMethod :: "'s \<Rightarrow> (py_exception + storage_id_t) \<times> 's"
  kCreateStorageMethod ::
    "storage_id_t \<Rightarrow> size_t \<Rightarrow> DeviceIndex \<Rightarrow> 's \<Rightarrow> (py_exception + bool) \<times> 's"
  kFreeStorageMethod :: "storage_id_t \<Rightarrow> 's \<Rightarrow> (py_exception + bool) \<times> 's"
  copy_data_by_id ::
    "storage_id_t \<Rightarrow> storage_id_t \<Rightarrow> size_t \<Rightarrow> 's \<Rightarrow> (py_exception + unit) \<times> 's"
  deviceCount :: "'s \<Rightarrow> (py_exception + int) \<times> 's"

text \<open>One entry per call that crossed into the Python side, with its arguments.\<close>

datatype call =
    Call_getDevice
  | Call_kGenerateStorageIdMethod
  | Call_kCreateStorageMethod storage_id_t size_t DeviceIndex
  | Call_kFreeStorageMethod storage_id_t
  | Call_copy_data_by_id storage_id_t storage_id_t size_t
  | Call_deviceCount

datatype free_failure = FreeRaised storage_id_t py_exception | FreeFailed storage_id_t

text \<open>
  The world a function of the source runs in: the Python side, the calls made so far, and
  the failures of the deleter that were reported locally.
\<close>

record 's world =
  py :: 's
  calls :: "call list"
  reported :: "free_failure list"

definition get_method ::
  "call \<Rightarrow> ('s \<Rightarrow> (py_exception + 'a) \<times> 's) \<Rightarrow> 's world \<Rightarrow> (py_exception + 'a) \<times> 's world" where
  "get_method c f w =
     (case f (py w) of (r, s') \<Rightarrow> (r, w\<lparr>py := s', calls := calls w @ [c]\<rparr>))"

subsection \<open>RemoteAllocator\<close>

definition allocate :: "'s backend \<Rightarrow> size_t \<Rightarrow> 's world \<Rightarrow> (error + DataPtr) \<times> 's world" where
  "allocate b nbytes w =
     (case get_method Call_getDevice (getDevice b) w of
        (Inl e, w1) \<Rightarrow> (Inl (PyRaised e), w1)
      | (Inr curr_device_idx, w1) \<Rightarrow>
          (let curr_device = Device PrivateUse1 curr_device_idx in
           case get_method Call_kGenerateStorageIdMethod (kGenerateStorageIdMethod b) w1 of
             (Inl e, w2) \<Rightarrow> (Inl (PyRaised e), w2)
           | (Inr storage_id, w2) \<Rightarrow>
               (case get_method (Call_kCreateStorageMethod storage_id nbytes curr_device_idx)
                       (kCreateStorageMethod b storage_id nbytes curr_device_idx) w2 of
                  (Inl e, w3) \<Rightarrow> (Inl (PyRaised e), w3)
                | (Inr success, w3) \<Rightarrow>
                    if \<not> success then
                      (Inl (TorchCheck
                         [Str ''Failed to allocate storage with ID '', U64 storage_id,
                          Str '' ('', Size nbytes, Str '' bytes) on remote device '',
                          Idx curr_device_idx]), w3)
                    else
                      (let data = ptr_of_storage_id storage_id in
                       (Inr \<lparr>data = data, ctx = data,
                             deleter = ReportAndDelete_kFreeStorageMethod,
                             device = curr_device\<rparr>, w3)))))"

definition raw_deleter :: DeleterFnPtr where
  "raw_deleter = ReportAndDelete_kFreeStorageMethod"

definition copy_data ::
  "'s backend \<Rightarrow> void_ptr \<Rightarrow> void_ptr \<Rightarrow> size_t \<Rightarrow> 's world \<Rightarrow> (error + unit) \<times> 's world" where
  "copy_data b dest src count w =
     (let dest_id = storage_id_of_ptr dest;
          src_id = storage_id_of_ptr src in
      case get_method (Call_copy_data_by_id dest_id src_id count)
             (copy_data_by_id b dest_id src_id count) w of
        (Inl e, w1) \<Rightarrow> (Inl (PyRaised e), w1)
      | (Inr u, w1) \<Rightarrow> (Inr (), w1))"

subsection \<open>validate_device_index\<close>

text \<open>
  \<^verbatim>\<open>.cast<c10::DeviceIndex>()\<close> on the Python integer the method returned: the
  conversion to a signed 8-bit integer refuses a value outside \<open>-128 .. 127\<close> with an
  exception, and keeps the value otherwise.
\<close>

definition cast_DeviceIndex :: "int \<Rightarrow> py_exception + DeviceIndex" where
  "cast_DeviceIndex n =
     (if - 128 \<le> n \<and> n \<le> 127 then Inr (word_of_int n)
      else Inl (PyException ''cast_error''))"

text \<open>
  The comparison is on the values of the two signed 8-bit integers. The conversion of the
  count is inside the \<^verbatim>\<open>try\<close> (line 67), and \<^verbatim>\<open>catch (...)\<close> takes every exception
  of the query and of the conversion, so the function has no error result.
\<close>

definition validate_device_index :: "'s backend \<Rightarrow> DeviceIndex \<Rightarrow> 's world \<Rightarrow> bool \<times> 's world" where
  "validate_device_index b device_index w =
     (case get_method Call_deviceCount (deviceCount b) w of
        (Inr n, w1) \<Rightarrow>
          (case cast_DeviceIndex n of
             Inr device_count \<Rightarrow>
               (0 \<le> sint device_index \<and> sint device_index < sint device_count, w1)
           | Inl e \<Rightarrow> (False, w1))
      | (Inl e, w1) \<Rightarrow> (False, w1))"

subsection \<open>Tensors of the host framework\<close>

datatype ScalarType = kByte | kChar | kShort | kInt | kLong | kHalf | kFloat | kDouble | kBool

datatype Layout = Strided | Sparse | SparseCsr | Mkldnn | SparseCsc | SparseBsr | SparseBsc | Jagged

datatype MemoryFormat = Contiguous | Preserve | ChannelsLast | ChannelsLast3d

datatype DispatchKey = DispatchKey_CPU | DispatchKey_PrivateUse1

record Storage =
  data_ptr :: DataPtr
  storage_nbytes :: size_t

record Tensor =
  storage :: Storage
  storage_offset :: int
  sizes :: "int list"
  strides :: "int list"
  scalar_type :: ScalarType
  tensor_device :: Device

text \<open>\<^verbatim>\<open>c10::optional<T>::value_or\<close>.\<close>

definition value_or :: "'a option \<Rightarrow> 'a \<Rightarrow> 'a" where
  "value_or opt d = (case opt of Some v \<Rightarrow> v | None \<Rightarrow> d)"

text \<open>
  What the two factory functions call in the host framework, which is not part of this
  repository: the default dtype, the scoped \<^verbatim>\<open>c10::DeviceGuard\<close> (it runs the rest of
  the function body under the given device), and \<^verbatim>\<open>at::detail::empty_generic\<close> and
  \<^verbatim>\<open>at::detail::empty_strided_generic\<close>, which receive the allocator.
\<close>

type_synonym 's allocator = "size_t \<Rightarrow> 's world \<Rightarrow> (error + DataPtr) \<times> 's world"

record 's aten =
  get_default_dtype_as_scalartype :: ScalarType
  DeviceGuard ::
    "Device \<Rightarrow> ('s world \<Rightarrow> (error + Tensor) \<times> 's world) \<Rightarrow> 's world \<Rightarrow> (error + Tensor) \<times> 's world"
  empty_generic ::
    "int list \<Rightarrow> 's allocator \<Rightarrow> DispatchKey list \<Rightarrow> ScalarType \<Rightarrow> MemoryFormat \<Rightarrow>
     's world \<Rightarrow> (error + Tensor) \<times> 's world"
  empty_strided_generic ::
    "int list \<Rightarrow> int list \<Rightarrow> 's allocator \<Rightarrow> DispatchKey list \<Rightarrow> ScalarType \<Rightarrow>
     's world \<Rightarrow> (error + Tensor) \<times> 's world"

definition remote_dks :: "DispatchKey list" where
  "remote_dks = [DispatchKey_PrivateUse1]"

subsection \<open>empty_remote and empty_strided_remote\<close>

text \<open>The device resolution, lines 84 to 87 and again lines 120 to 123.\<close>

definition target_device_of :: "Device option \<Rightarrow> Device" where
  "target_device_of device' =
     (let target_device = value_or device' (Device PrivateUse1 0) in
      if type target_device \<noteq> PrivateUse1
      then Device PrivateUse1 (index target_device)
      else target_device)"

definition empty_remote ::
  "'s aten \<Rightarrow> 's backend \<Rightarrow> int list \<Rightarrow> ScalarType option \<Rightarrow> Layout option \<Rightarrow>
   Device option \<Rightarrow> bool option \<Rightarrow> MemoryFormat option \<Rightarrow>
   's world \<Rightarrow> (error + Tensor) \<times> 's world" where
  "empty_remote a b size' dtype layout device' pin_memory memory_format w =
     (let target_device = target_device_of device' in
      case validate_device_index b (index target_device) w of
        (valid, w1) \<Rightarrow>
          if \<not> valid then
            (Inl (TorchCheck [Str ''Invalid device index: '', Idx (index target_device)]), w1)
          else
            (let resolved_dtype = value_or dtype (get_default_dtype_as_scalartype a);
                 resolved_layout = value_or layout Strided;
                 resolved_memory_format = value_or memory_format Contiguous in
             if resolved_layout \<noteq> Strided then
               (Inl (TorchCheck [Str ''Only strided layout is supported'']), w1)
             else if value_or pin_memory False then
               (Inl (TorchCheck [Str ''Pin memory is not supported on remote devices'']), w1)
             else
               DeviceGuard a target_device
                 (empty_generic a size' (allocate b) remote_dks resolved_dtype
                    resolved_memory_format) w1))"


subsection \<open>as_strided_remote and set_remote\<close>

text \<open>
  Both functions hand over to the CPU implementation of the host framework
  (\<^verbatim>\<open>at::cpu::as_strided\<close>, \<^verbatim>\<open>at::cpu::set_\<close>), which is a parameter here. It works on
  the local descriptor only and has no way to the Python side, so it is a function of its
  arguments alone.
\<close>

type_synonym as_strided_impl = "Tensor \<Rightarrow> int list \<Rightarrow> int list \<Rightarrow> int option \<Rightarrow> error + Tensor"
type_synonym set_impl = "Tensor \<Rightarrow> Storage \<Rightarrow> int \<Rightarrow> int list \<Rightarrow> int list \<Rightarrow> error + Tensor"

definition as_strided_remote ::
  "as_strided_impl \<Rightarrow> Tensor \<Rightarrow> int list \<Rightarrow> int list \<Rightarrow> int option \<Rightarrow>
   's world \<Rightarrow> (error + Tensor) \<times> 's world" where
  "as_strided_remote cpu_as_strided self size' stride storage_offset' w =
     (if type (tensor_device self) \<noteq> PrivateUse1 then
        (Inl (TorchCheck [Str ''as_strided_remote expects a remote tensor'']), w)
      else (cpu_as_strided self size' stride storage_offset', w))"

definition set_remote ::
  "set_impl \<Rightarrow> Tensor \<Rightarrow> Storage \<Rightarrow> int \<Rightarrow> int list \<Rightarrow> int list \<Rightarrow>
   's world \<Rightarrow> (error + Tensor) \<times> 's world" where
  "set_remote cpu_set result storage' storage_offset' size' stride w =
     (cpu_set result storage' storage_offset' size' stride, w)"

text \<open>
  Modelled from the spec: \<^verbatim>\<open>at::cpu::as_strided\<close>, the host framework's local
  construction of a view, is not in the source files. The spec (4.4): ``new tensor
  descriptor sharing the same underlying storage handle, with new size/stride/offset''.
  Without a requested offset the view keeps the offset of its input.
\<close>

definition at_cpu_as_strided :: as_strided_impl where
  "at_cpu_as_strided self size' stride storage_offset' =
     Inr (self\<lparr>sizes := size', strides := stride,
               storage_offset := value_or storage_offset' (storage_offset self)\<rparr>)"

text \<open>
  Modelled from the spec: \<^verbatim>\<open>at::cpu::set_\<close> is not in the source files. The spec (4.4):
  ``mutates the tensor's descriptor in place to reference the given
  storage/offset/size/stride''.
\<close>

definition at_cpu_set :: set_impl where
  "at_cpu_set result storage' storage_offset' size' stride =
     Inr (result\<lparr>storage := storage', storage_offset := storage_offset', sizes := size',
                 strides := stride\<rparr>)"

subsection \<open>The deleter\<close>

text \<open>
  Modelled from the spec: \<^verbatim>\<open>ReportAndDelete<kFreeStorageMethod>\<close>, the deleter that
  \<^verbatim>\<open>allocate\<close> and \<^verbatim>\<open>raw_deleter\<close> hand to the host framework, is declared outside the
  source files. The spec (4.1, free): it ``reinterprets the reference into a handle and
  issues a "free storage" callback''; ``any failure here is reported (e.g., logged) but must
  not raise past this boundary''; (9) ``on failure, record/log and return normally''.
\<close>

definition ReportAndDelete ::
  "'s backend \<Rightarrow> void_ptr \<Rightarrow> 's world \<Rightarrow> (error + unit) \<times> 's world" where
  "ReportAndDelete b ptr w =
     (let storage_id = storage_id_of_ptr ptr in
      case get_method (Call_kFreeStorageMethod storage_id)
             (kFreeStorageMethod b storage_id) w of
        (Inl e, w1) \<Rightarrow> (Inr (), w1\<lparr>reported := reported w1 @ [FreeRaised storage_id e]\<rparr>)
      | (Inr success, w1) \<Rightarrow>
          if success then (Inr (), w1)
          else (Inr (), w1\<lparr>reported := reported w1 @ [FreeFailed storage_id]\<rparr>))"

text \<open>Calling through a deleter pointer, as the host framework does when a storage dies.\<close>

fun invoke_deleter ::
  "DeleterFnPtr \<Rightarrow> 's backend \<Rightarrow> void_ptr \<Rightarrow> 's world \<Rightarrow> (error + unit) \<times> 's world" where
  "invoke_deleter ReportAndDelete_kFreeStorageMethod b ptr w = ReportAndDelete b ptr w"

subsection \<open>Test doubles\<close>

text \<open>
  A Python side with one device. Its state is the number of storage ids it has handed
  out; it refuses a storage of more than 4096 bytes and a free of the id 0.
\<close>

definition backend_double :: "nat backend" where
  "backend_double =
     \<lparr>getDevice = (\<lambda>s. (Inr 0, s)),
      kGenerateStorageIdMethod = (\<lambda>s. (Inr (of_nat (Suc s)), Suc s)),
      kCreateStorageMethod = (\<lambda>storage_id n d s. (Inr (n \<le> 4096), s)),
      kFreeStorageMethod = (\<lambda>storage_id s. (Inr (storage_id \<noteq> 0), s)),
      copy_data_by_id = (\<lambda>dest_id src_id n s. (Inr (), s)),
      deviceCount = (\<lambda>s. (Inr 1, s))\<rparr>"

text \<open>The same Python side after its interpreter has gone: every method raises.\<close>

definition backend_down :: "nat backend" where
  "backend_down =
     \<lparr>getDevice = (\<lambda>s. (Inl (PyException ''RuntimeError''), s)),
      kGenerateStorageIdMethod = (\<lambda>s. (Inl (PyException ''RuntimeError''), s)),
      kCreateStorageMethod = (\<lambda>storage_id n d s. (Inl (PyException ''RuntimeError''), s)),
      kFreeStorageMethod = (\<lambda>storage_id s. (Inl (PyException ''RuntimeError''), s)),
      copy_data_by_id = (\<lambda>dest_id src_id n s. (Inl (PyException ''RuntimeError''), s)),
      deviceCount = (\<lambda>s. (Inl (PyException ''RuntimeError''), s))\<rparr>"

text \<open>The Python side with one device, reporting 200 devices instead.\<close>

definition backend_200 :: "nat backend" where
  "backend_200 = backend_double\<lparr>deviceCount := (\<lambda>s. (Inr 200, s))\<rparr>"

definition world0 :: "nat world" where
  "world0 = \<lparr>py = 0, calls = [], reported = []\<rparr>"

fun itemsize :: "ScalarType \<Rightarrow> int" where
  "itemsize kByte = 1"
| "itemsize kChar = 1"
| "itemsize kShort = 2"
| "itemsize kInt = 4"
| "itemsize kLong = 8"
| "itemsize kHalf = 2"
| "itemsize kFloat = 4"
| "itemsize kDouble = 8"
| "itemsize kBool = 1"

fun contiguous_strides :: "int list \<Rightarrow> int list" where
  "contiguous_strides [] = []"
| "contiguous_strides (d # ds) = prod_list ds # contiguous_strides ds"

text \<open>
  A host framework that allocates \<open>numel * itemsize\<close> bytes and builds the descriptor; its
  device guard runs the body as it is.
\<close>

definition make_tensor ::
  "int list \<Rightarrow> int list \<Rightarrow> ScalarType \<Rightarrow> size_t \<Rightarrow> 's allocator \<Rightarrow>
   's world \<Rightarrow> (error + Tensor) \<times> 's world" where
  "make_tensor size' stride dt n alloc w =
     (case alloc n w of
        (Inl e, w1) \<Rightarrow> (Inl e, w1)
      | (Inr dp, w1) \<Rightarrow>
          (Inr \<lparr>storage = \<lparr>data_ptr = dp, storage_nbytes = n\<rparr>, storage_offset = 0, sizes = size',
                strides = stride, scalar_type = dt, tensor_device = device dp\<rparr>, w1))"

definition aten_double :: "nat aten" where
  "aten_double =
     \<lparr>get_default_dtype_as_scalartype = kFloat,
      DeviceGuard = (\<lambda>d body w. body w),
      empty_generic = (\<lambda>size' alloc dks dt mf.
        make_tensor size' (contiguous_strides size') dt
          (word_of_int (prod_list size' * itemsize dt)) alloc),
      empty_strided_generic = (\<lambda>size' stride alloc dks dt.
        make_tensor size' stride dt (word_of_int (prod_list size' * itemsize dt)) alloc)\<rparr>"

text \<open>Two descriptors for the examples: one on the remote device, one on the CPU.\<close>

definition remote_tensor :: Tensor where
  "remote_tensor =
     \<lparr>storage = \<lparr>data_ptr = \<lparr>data = Ptr 7, ctx = Ptr 7,
                              deleter = ReportAndDelete_kFreeStorageMethod,
                              device = Device PrivateUse1 0\<rparr>,
                  storage_nbytes = 64\<rparr>,
      storage_offset = 0, sizes = [4, 4], strides = [4, 1], scalar_type = kFloat,
      tensor_device = Device PrivateUse1 0\<rparr>"

definition cpu_tensor :: Tensor where
  "cpu_tensor =
     \<lparr>storage = \<lparr>data_ptr = \<lparr>data = Ptr 7, ctx = Ptr 7,
                              deleter = ReportAndDelete_kFreeStorageMethod,
                              device = Device CPU 0\<rparr>,
                  storage_nbytes = 64\<rparr>,
      storage_offset = 0, sizes = [4, 4], strides = [4, 1], scalar_type = kFloat,
      tensor_device = Device CPU 0\<rparr>"

section \<open>Properties\<close>

subsection \<open>Auxiliary facts\<close>

lemma allocate_create_answers:
  assumes "getDevice b (py w) = (Inr curr_device_idx, s1)"
    and "kGenerateStorageIdMethod b s1 = (Inr storage_id, s2)"
    and "kCreateStorageMethod b storage_id nbytes curr_device_idx s2 = (Inr success, s3)"
  shows "allocate b nbytes w =
    (if \<not> success then
       Inl (TorchCheck
         [Str ''Failed to allocate storage with ID '', U64 storage_id,
          Str '' ('', Size nbytes, Str '' bytes) on remote device '', Idx curr_device_idx])
     else
       Inr \<lparr>data = ptr_of_storage_id storage_id, ctx = ptr_of_storage_id storage_id,
            deleter = ReportAndDelete_kFreeStorageMethod,
            device = Device PrivateUse1 curr_device_idx\<rparr>,
     w\<lparr>py := s3,
       calls := calls w @ [Call_getDevice, Call_kGenerateStorageIdMethod,
                           Call_kCreateStorageMethod storage_id nbytes curr_device_idx]\<rparr>)"
  using assms by (simp add: allocate_def get_method_def Let_def)

lemma allocate_double_16:
  "allocate backend_double 16 world0 =
     (Inr \<lparr>data = Ptr 1, ctx = Ptr 1, deleter = ReportAndDelete_kFreeStorageMethod,
           device = Device PrivateUse1 0\<rparr>,
      \<lparr>py = 1, calls = [Call_getDevice, Call_kGenerateStorageIdMethod,
                         Call_kCreateStorageMethod 1 16 0], reported = []\<rparr>)"
  by (simp add: allocate_def get_method_def backend_double_def world0_def Let_def
      ptr_of_storage_id_def)

lemma double_getDevice: "getDevice backend_double (py world0) = (Inr 0, 0)"
  by (simp add: backend_double_def world0_def)

lemma double_generate: "kGenerateStorageIdMethod backend_double 0 = (Inr 1, 1)"
  by (simp add: backend_double_def)

lemma double_create_refused: "kCreateStorageMethod backend_double 1 5000 0 1 = (Inr False, 1)"
  by (simp add: backend_double_def)

lemma validate_double:
  "validate_device_index backend_double i w =
     (0 \<le> sint i \<and> sint i < 1, w\<lparr>calls := calls w @ [Call_deviceCount]\<rparr>)"
  by (simp add: validate_device_index_def get_method_def backend_double_def
      cast_DeviceIndex_def)


lemma empty_remote_valid:
  assumes "fst (validate_device_index b (index (target_device_of device')) w)"
  shows "empty_remote a b size' dtype layout device' pin_memory memory_format w =
    (if value_or layout Strided \<noteq> Strided then
       (Inl (TorchCheck [Str ''Only strided layout is supported'']),
        snd (validate_device_index b (index (target_device_of device')) w))
     else if value_or pin_memory False then
       (Inl (TorchCheck [Str ''Pin memory is not supported on remote devices'']),
        snd (validate_device_index b (index (target_device_of device')) w))
     else
       DeviceGuard a (target_device_of device')
         (empty_generic a size' (allocate b) remote_dks
            (value_or dtype (get_default_dtype_as_scalartype a))
            (value_or memory_format Contiguous))
         (snd (validate_device_index b (index (target_device_of device')) w)))"
  using assms
  by (cases "validate_device_index b (index (target_device_of device')) w")
    (simp add: empty_remote_def Let_def)



subsection \<open>allocate\<close>

text \<open>
  C1. Whenever \<open>allocate\<close> succeeds, the Python side answered three calls, in this order:
  \<open>getDevice\<close> gave a device index, the generate-id method gave a storage id, and the
  create-storage method, called with exactly (id, nbytes, device index), gave true. Nothing
  else was called. The data pointer returned is the id reinterpreted, and it is tagged with
  the remote device of that index.
\<close>

theorem allocate_success:
  assumes "allocate b nbytes w = (Inr dp, w')"
  shows "\<exists>curr_device_idx storage_id s1 s2 s3.
     getDevice b (py w) = (Inr curr_device_idx, s1) \<and>
     kGenerateStorageIdMethod b s1 = (Inr storage_id, s2) \<and>
     kCreateStorageMethod b storage_id nbytes curr_device_idx s2 = (Inr True, s3) \<and>
     w' = w\<lparr>py := s3,
             calls := calls w @ [Call_getDevice, Call_kGenerateStorageIdMethod,
                                 Call_kCreateStorageMethod storage_id nbytes curr_device_idx]\<rparr> \<and>
     dp = \<lparr>data = ptr_of_storage_id storage_id, ctx = ptr_of_storage_id storage_id,
           deleter = ReportAndDelete_kFreeStorageMethod,
           device = Device PrivateUse1 curr_device_idx\<rparr> \<and>
     storage_id_of_ptr (data dp) = storage_id"
proof -
  obtain r1 s1 where g1: "getDevice b (py w) = (r1, s1)"
    by (cases "getDevice b (py w)")
  obtain r2 s2 where g2: "kGenerateStorageIdMethod b s1 = (r2, s2)"
    by (cases "kGenerateStorageIdMethod b s1")
  from assms g1 obtain idx where r1: "r1 = Inr idx"
    by (cases r1) (auto simp: allocate_def get_method_def)
  from assms g1 g2 r1 obtain sid where r2: "r2 = Inr sid"
    by (cases r2) (auto simp: allocate_def get_method_def)
  obtain r3 s3 where g3: "kCreateStorageMethod b sid nbytes idx s2 = (r3, s3)"
    by (cases "kCreateStorageMethod b sid nbytes idx s2")
  from assms g1 g2 g3 r1 r2 obtain ok where r3: "r3 = Inr ok"
    by (cases r3) (auto simp: allocate_def get_method_def)
  note run = allocate_create_answers [OF g1 [unfolded r1] g2 [unfolded r2] g3 [unfolded r3]]
  have ok: "ok"
    using assms run by (cases ok) auto
  show ?thesis
    using assms run g1 g2 g3 r1 r2 r3 ok
    by (auto simp: storage_id_of_ptr_def ptr_of_storage_id_def)
qed

theorem allocate_success_witness:
  "allocate backend_double 16 world0 =
     (Inr \<lparr>data = Ptr 1, ctx = Ptr 1, deleter = ReportAndDelete_kFreeStorageMethod,
           device = Device PrivateUse1 0\<rparr>,
      \<lparr>py = 1, calls = [Call_getDevice, Call_kGenerateStorageIdMethod,
                         Call_kCreateStorageMethod 1 16 0], reported = []\<rparr>) \<and>
   (\<exists>curr_device_idx storage_id s1 s2 s3.
     getDevice backend_double (py world0) = (Inr curr_device_idx, s1) \<and>
     kGenerateStorageIdMethod backend_double s1 = (Inr storage_id, s2) \<and>
     kCreateStorageMethod backend_double storage_id 16 curr_device_idx s2 = (Inr True, s3) \<and>
     \<lparr>py = 1, calls = [Call_getDevice, Call_kGenerateStorageIdMethod,
                        Call_kCreateStorageMethod 1 16 0], reported = []\<rparr> =
       world0\<lparr>py := s3,
              calls := calls world0 @ [Call_getDevice, Call_kGenerateStorageIdMethod,
                         Call_kCreateStorageMethod storage_id 16 curr_device_idx]\<rparr> \<and>
     \<lparr>data = Ptr 1, ctx = Ptr 1, deleter = ReportAndDelete_kFreeStorageMethod,
      device = Device PrivateUse1 0\<rparr> =
       \<lparr>data = ptr_of_storage_id storage_id, ctx = ptr_of_storage_id storage_id,
        deleter = ReportAndDelete_kFreeStorageMethod,
        device = Device PrivateUse1 curr_device_idx\<rparr> \<and>
     storage_id_of_ptr
       (data \<lparr>data = Ptr 1, ctx = Ptr 1, deleter = ReportAndDelete_kFreeStorageMethod,
              device = Device PrivateUse1 0\<rparr>) = storage_id)"
  using allocate_double_16 allocate_success [OF allocate_double_16] by blast

text \<open>
  C3. When the device index and the storage id were obtained and the create-storage method
  answers false, \<open>allocate\<close> ends in the error of its \<^verbatim>\<open>TORCH_CHECK\<close>, and the message is
  built from the minted id, the byte count and the device index.
\<close>

theorem allocate_failure_error:
  assumes "getDevice b (py w) = (Inr curr_device_idx, s1)"
    and "kGenerateStorageIdMethod b s1 = (Inr storage_id, s2)"
    and "kCreateStorageMethod b storage_id nbytes curr_device_idx s2 = (Inr False, s3)"
  shows "fst (allocate b nbytes w) =
    Inl (TorchCheck
      [Str ''Failed to allocate storage with ID '', U64 storage_id,
       Str '' ('', Size nbytes, Str '' bytes) on remote device '', Idx curr_device_idx])"
  using allocate_create_answers [OF assms] by simp

theorem allocate_failure_error_witness:
  "getDevice backend_double (py world0) = (Inr 0, 0) \<and>
   kGenerateStorageIdMethod backend_double 0 = (Inr 1, 1) \<and>
   kCreateStorageMethod backend_double 1 5000 0 1 = (Inr False, 1) \<and>
   fst (allocate backend_double 5000 world0) =
    Inl (TorchCheck
      [Str ''Failed to allocate storage with ID '', U64 1,
       Str '' ('', Size 5000, Str '' bytes) on remote device '', Idx 0])"
  using double_getDevice double_generate double_create_refused
    allocate_failure_error [OF double_getDevice double_generate double_create_refused]
  by simp

text \<open>
  C10. In the same situation the error comes after the id was minted: the calls made are
  \<open>getDevice\<close>, the generate-id method and the create-storage method, and no others. In
  particular the free-storage method is not called for the minted id, the Python side is left
  as the create-storage method left it, and nothing is reported.
\<close>

theorem allocate_failure_abandons_handle:
  assumes "getDevice b (py w) = (Inr curr_device_idx, s1)"
    and "kGenerateStorageIdMethod b s1 = (Inr storage_id, s2)"
    and "kCreateStorageMethod b storage_id nbytes curr_device_idx s2 = (Inr False, s3)"
  shows "(\<exists>e. fst (allocate b nbytes w) = Inl e) \<and>
    snd (allocate b nbytes w) =
      w\<lparr>py := s3,
        calls := calls w @ [Call_getDevice, Call_kGenerateStorageIdMethod,
                            Call_kCreateStorageMethod storage_id nbytes curr_device_idx]\<rparr> \<and>
    Call_kFreeStorageMethod storage_id
      \<notin> set (drop (length (calls w)) (calls (snd (allocate b nbytes w)))) \<and>
    reported (snd (allocate b nbytes w)) = reported w"
  using allocate_create_answers [OF assms] by simp

theorem allocate_failure_abandons_handle_witness:
  "getDevice backend_double (py world0) = (Inr 0, 0) \<and>
   kGenerateStorageIdMethod backend_double 0 = (Inr 1, 1) \<and>
   kCreateStorageMethod backend_double 1 5000 0 1 = (Inr False, 1) \<and>
   snd (allocate backend_double 5000 world0) =
     \<lparr>py = 1, calls = [Call_getDevice, Call_kGenerateStorageIdMethod,
                        Call_kCreateStorageMethod 1 5000 0], reported = []\<rparr> \<and>
   Call_kFreeStorageMethod 1
      \<notin> set (drop (length (calls world0)) (calls (snd (allocate backend_double 5000 world0))))"
  using double_getDevice double_generate double_create_refused
    allocate_failure_abandons_handle [OF double_getDevice double_generate double_create_refused]
  by (simp add: world0_def)

subsection \<open>copy_data\<close>

text \<open>
  C2. The data pointer and the storage id have the same 64 bits: going from an id to a
  pointer and back gives the id, and going from a pointer to an id and back gives the
  pointer. \<open>copy_data\<close> does one thing for any two pointers and any count: it calls the
  copy-by-id method with the two ids read back from the pointers and the count unchanged.
  The world after the call differs from the world before only in what that method did to
  the Python side and in the one entry of the call list; an exception of the method is the
  result of \<open>copy_data\<close>.
\<close>

theorem copy_data_round_trip:
  "storage_id_of_ptr (ptr_of_storage_id h) = h \<and>
   addr (ptr_of_storage_id h) = h \<and>
   ptr_of_storage_id (storage_id_of_ptr p) = p \<and>
   copy_data b (ptr_of_storage_id dest_id) (ptr_of_storage_id src_id) count w =
     (case copy_data_by_id b dest_id src_id count (py w) of
        (r, s') \<Rightarrow>
          (case r of Inl e \<Rightarrow> Inl (PyRaised e) | Inr u \<Rightarrow> Inr (),
           w\<lparr>py := s', calls := calls w @ [Call_copy_data_by_id dest_id src_id count]\<rparr>)) \<and>
   calls (snd (copy_data b dest src count w)) =
     calls w @ [Call_copy_data_by_id (storage_id_of_ptr dest) (storage_id_of_ptr src) count] \<and>
   reported (snd (copy_data b dest src count w)) = reported w"
proof -
  have unfold: "copy_data b x y count w =
     (case copy_data_by_id b (storage_id_of_ptr x) (storage_id_of_ptr y) count (py w) of
        (r, s') \<Rightarrow>
          (case r of Inl e \<Rightarrow> Inl (PyRaised e) | Inr u \<Rightarrow> Inr (),
           w\<lparr>py := s',
             calls := calls w @
               [Call_copy_data_by_id (storage_id_of_ptr x) (storage_id_of_ptr y) count]\<rparr>))"
    for x y
    by (cases "copy_data_by_id b (storage_id_of_ptr x) (storage_id_of_ptr y) count (py w)")
      (simp add: copy_data_def get_method_def Let_def split: sum.splits)
  have ids: "storage_id_of_ptr (ptr_of_storage_id k) = k" for k
    by (simp add: storage_id_of_ptr_def ptr_of_storage_id_def)
  have "ptr_of_storage_id (storage_id_of_ptr p) = p"
    by (simp add: storage_id_of_ptr_def ptr_of_storage_id_def)
  moreover have "addr (ptr_of_storage_id h) = h"
    by (simp add: ptr_of_storage_id_def)
  moreover have "calls (snd (copy_data b dest src count w)) =
     calls w @ [Call_copy_data_by_id (storage_id_of_ptr dest) (storage_id_of_ptr src) count]"
    by (simp add: unfold split: prod.splits)
  moreover have "reported (snd (copy_data b dest src count w)) = reported w"
    by (simp add: unfold split: prod.splits)
  ultimately show ?thesis
    using unfold [of "ptr_of_storage_id dest_id" "ptr_of_storage_id src_id"]
    by (simp add: ids)
qed

theorem copy_data_round_trip_witness:
  "copy_data backend_double (ptr_of_storage_id 2) (ptr_of_storage_id 1) 16 world0 =
     (Inr (), \<lparr>py = 0, calls = [Call_copy_data_by_id 2 1 16], reported = []\<rparr>) \<and>
   copy_data backend_down (ptr_of_storage_id 2) (ptr_of_storage_id 1) 16 world0 =
     (Inl (PyRaised (PyException ''RuntimeError'')),
      \<lparr>py = 0, calls = [Call_copy_data_by_id 2 1 16], reported = []\<rparr>)"
  using copy_data_round_trip [of 1 "Ptr 1" backend_double 2 1 16 world0 "Ptr 2" "Ptr 1"]
    copy_data_round_trip [of 1 "Ptr 1" backend_down 2 1 16 world0 "Ptr 2" "Ptr 1"]
  by (simp add: backend_double_def backend_down_def world0_def)

subsection \<open>validate_device_index\<close>

text \<open>
  C4, as the claim states it, fails: the count is converted to a signed 8-bit integer before
  the comparison, and a count that does not fit makes the answer false. With a Python side
  that reports 200 devices, index 5 satisfies \<open>0 \<le> 5 < 200\<close>, and
  \<open>validate_device_index\<close> answers false.
\<close>

theorem validate_device_index_counterexample:
  "fst (deviceCount backend_200 (py world0)) = Inr 200 \<and>
   0 \<le> sint (5 :: DeviceIndex) \<and> sint (5 :: DeviceIndex) < 200 \<and>
   \<not> fst (validate_device_index backend_200 5 world0)"
  by (simp add: validate_device_index_def get_method_def backend_200_def backend_double_def
      world0_def cast_DeviceIndex_def)

text \<open>
  C4, amended. \<open>validate_device_index\<close> answers true exactly when the device-count method
  gave a count of at most 127 (one that fits the signed 8-bit device index) and the index,
  read as a signed number, is at least 0 and below that count. When the method raises, or
  the count does not fit, the answer is false. The function has no error result: in every
  case it returns, having made the one call.
\<close>

theorem validate_device_index_iff:
  "fst (validate_device_index b device_index w) =
     (case fst (deviceCount b (py w)) of
        Inr n \<Rightarrow> n \<le> 127 \<and> 0 \<le> sint device_index \<and> sint device_index < n
      | Inl e \<Rightarrow> False) \<and>
   snd (validate_device_index b device_index w) =
     w\<lparr>py := snd (deviceCount b (py w)), calls := calls w @ [Call_deviceCount]\<rparr>"
proof -
  obtain r s' where q: "deviceCount b (py w) = (r, s')"
    by (cases "deviceCount b (py w)")
  have fits: "sint (word_of_int n :: DeviceIndex) = n" if "- 128 \<le> n" "n \<le> 127" for n
    using that by (simp add: signed_of_int signed_take_bit_int_eq_self)
  have range: "- 128 \<le> sint device_index" "sint device_index \<le> 127"
    using sint_range_size [of device_index] by (simp_all add: word_size)
  show ?thesis
  proof (cases r)
    case (Inl e)
    with q show ?thesis
      by (simp add: validate_device_index_def get_method_def)
  next
    case (Inr n)
    show ?thesis
    proof (cases "- 128 \<le> n \<and> n \<le> 127")
      case True
      with q Inr show ?thesis
        by (simp add: validate_device_index_def get_method_def cast_DeviceIndex_def fits)
    next
      case False
      with q Inr range show ?thesis
        by (auto simp: validate_device_index_def get_method_def cast_DeviceIndex_def)
    qed
  qed
qed

theorem validate_device_index_iff_witness:
  "fst (validate_device_index backend_double 0 world0) \<and>
   \<not> fst (validate_device_index backend_double 1 world0) \<and>
   \<not> fst (validate_device_index backend_double (- 1) world0) \<and>
   \<not> fst (validate_device_index backend_200 5 world0) \<and>
   \<not> fst (validate_device_index backend_down 0 world0)"
  using validate_device_index_iff [of backend_double 0 world0]
    validate_device_index_iff [of backend_double 1 world0]
    validate_device_index_iff [of backend_double "- 1" world0]
    validate_device_index_iff [of backend_200 5 world0]
    validate_device_index_iff [of backend_down 0 world0]
  by (simp add: backend_double_def backend_down_def backend_200_def world0_def)

subsection \<open>The deleter\<close>

text \<open>
  C8. The deleter returns normally for every pointer and every outcome of the free-storage
  method. It makes the one call, for the id read back from the pointer. When the method
  raises or answers false, that failure is added to the reported failures; otherwise nothing
  is reported. \<open>raw_deleter\<close> is this deleter.
\<close>

theorem ReportAndDelete_returns:
  "fst (ReportAndDelete b ptr w) = Inr () \<and>
   fst (invoke_deleter raw_deleter b ptr w) = Inr () \<and>
   py (snd (ReportAndDelete b ptr w)) =
     snd (kFreeStorageMethod b (storage_id_of_ptr ptr) (py w)) \<and>
   calls (snd (ReportAndDelete b ptr w)) =
     calls w @ [Call_kFreeStorageMethod (storage_id_of_ptr ptr)] \<and>
   reported (snd (ReportAndDelete b ptr w)) =
     reported w @
       (case fst (kFreeStorageMethod b (storage_id_of_ptr ptr) (py w)) of
          Inl e \<Rightarrow> [FreeRaised (storage_id_of_ptr ptr) e]
        | Inr success \<Rightarrow> if success then [] else [FreeFailed (storage_id_of_ptr ptr)])"
  by (simp add: raw_deleter_def ReportAndDelete_def get_method_def Let_def
      split: prod.splits sum.splits)

theorem ReportAndDelete_returns_witness:
  "ReportAndDelete backend_down (Ptr 1) world0 =
     (Inr (), \<lparr>py = 0, calls = [Call_kFreeStorageMethod 1],
               reported = [FreeRaised 1 (PyException ''RuntimeError'')]\<rparr>) \<and>
   ReportAndDelete backend_double (Ptr 0) world0 =
     (Inr (), \<lparr>py = 0, calls = [Call_kFreeStorageMethod 0], reported = [FreeFailed 0]\<rparr>) \<and>
   ReportAndDelete backend_double (Ptr 1) world0 =
     (Inr (), \<lparr>py = 0, calls = [Call_kFreeStorageMethod 1], reported = []\<rparr>)"
proof -
  have "fst (ReportAndDelete backend_down (Ptr 1) world0) = Inr ()"
    and "fst (ReportAndDelete backend_double (Ptr 0) world0) = Inr ()"
    and "fst (ReportAndDelete backend_double (Ptr 1) world0) = Inr ()"
    using ReportAndDelete_returns by blast+
  moreover have "snd (ReportAndDelete backend_down (Ptr 1) world0) =
      \<lparr>py = 0, calls = [Call_kFreeStorageMethod 1],
       reported = [FreeRaised 1 (PyException ''RuntimeError'')]\<rparr>"
    and "snd (ReportAndDelete backend_double (Ptr 0) world0) =
      \<lparr>py = 0, calls = [Call_kFreeStorageMethod 0], reported = [FreeFailed 0]\<rparr>"
    and "snd (ReportAndDelete backend_double (Ptr 1) world0) =
      \<lparr>py = 0, calls = [Call_kFreeStorageMethod 1], reported = []\<rparr>"
    by (simp_all add: ReportAndDelete_def get_method_def Let_def backend_down_def
        backend_double_def world0_def storage_id_of_ptr_def)
  ultimately show ?thesis by (simp add: prod_eq_iff)
qed

subsection \<open>empty_remote and empty_strided_remote\<close>

text \<open>
  C5, as the claim states it, fails: the device index is validated before the layout and
  the pin-memory flag are looked at, and the layout before the pin-memory flag. With one
  device, a sparse layout on device 3 ends in the invalid-device error, and a sparse layout
  with pinned memory on device 0 ends in the layout error.
\<close>

theorem empty_remote_layout_pin_counterexample:
  "fst (empty_remote aten_double backend_double [4, 4] (Some kFloat) (Some Sparse)
          (Some (Device PrivateUse1 3)) None None world0) =
     Inl (TorchCheck [Str ''Invalid device index: '', Idx 3]) \<and>
   fst (empty_remote aten_double backend_double [4, 4] (Some kFloat) (Some Sparse)
          (Some (Device PrivateUse1 3)) None None world0) \<noteq>
     Inl (TorchCheck [Str ''Only strided layout is supported'']) \<and>
   fst (empty_remote aten_double backend_double [4, 4] (Some kFloat) (Some Sparse)
          (Some (Device PrivateUse1 0)) (Some True) None world0) =
     Inl (TorchCheck [Str ''Only strided layout is supported'']) \<and>
   fst (empty_remote aten_double backend_double [4, 4] (Some kFloat) (Some Sparse)
          (Some (Device PrivateUse1 0)) (Some True) None world0) \<noteq>
     Inl (TorchCheck [Str ''Pin memory is not supported on remote devices''])"
  by (simp add: empty_remote_def target_device_of_def value_or_def validate_double Let_def)

text \<open>
  C5, amended. When the resolved device index passes validation, \<open>empty_remote\<close> with a
  resolved layout other than strided ends in the layout error, whatever the other arguments
  are; and with a strided layout and a pin-memory flag that resolves to true it ends in the
  pin-memory error, whatever the other arguments are.
\<close>

theorem empty_remote_layout_pin:
  assumes "fst (validate_device_index b (index (target_device_of device')) w)"
  shows "(value_or layout Strided \<noteq> Strided \<longrightarrow>
            fst (empty_remote a b size' dtype layout device' pin_memory memory_format w) =
              Inl (TorchCheck [Str ''Only strided layout is supported''])) \<and>
         (value_or layout Strided = Strided \<and> value_or pin_memory False \<longrightarrow>
            fst (empty_remote a b size' dtype layout device' pin_memory memory_format w) =
              Inl (TorchCheck [Str ''Pin memory is not supported on remote devices'']))"
  using empty_remote_valid [OF assms] by simp

theorem empty_remote_layout_pin_witness:
  "fst (validate_device_index backend_double (index (target_device_of (Some (Device CUDA 0))))
          world0) \<and>
   value_or (Some Sparse) Strided \<noteq> Strided \<and>
   fst (empty_remote aten_double backend_double [4, 4] None (Some Sparse)
          (Some (Device CUDA 0)) (Some True) None world0) =
     Inl (TorchCheck [Str ''Only strided layout is supported'']) \<and>
   value_or None Strided = Strided \<and> value_or (Some True) False \<and>
   fst (empty_remote aten_double backend_double [4, 4] None None
          (Some (Device CUDA 0)) (Some True) None world0) =
     Inl (TorchCheck [Str ''Pin memory is not supported on remote devices''])"
proof -
  have h: "fst (validate_device_index backend_double
                  (index (target_device_of (Some (Device CUDA 0)))) world0)"
    by (simp add: validate_double target_device_of_def value_or_def)
  show ?thesis
    using h
      empty_remote_layout_pin [OF h, of "Some Sparse" aten_double "[4, 4]" None "Some True" None]
      empty_remote_layout_pin [OF h, of None aten_double "[4, 4]" None "Some True" None]
    by (simp add: value_or_def)
qed



subsection \<open>as_strided_remote and set_remote\<close>

text \<open>
  C6. For a tensor whose device is not of the remote type, \<open>as_strided_remote\<close> ends in
  the error of its \<^verbatim>\<open>TORCH_CHECK\<close>, whatever the CPU implementation is. For a tensor on the
  remote type it returns what the CPU implementation returns: with the implementation
  described by the spec, a descriptor with the storage of the input, the requested size and
  stride, and the requested offset (the offset of the input when none is requested). In
  every case the world is unchanged, so no call reaches the Python side.
\<close>

theorem as_strided_remote_view:
  "(type (tensor_device self) \<noteq> PrivateUse1 \<longrightarrow>
      as_strided_remote cpu_as_strided self size' stride storage_offset' w =
        (Inl (TorchCheck [Str ''as_strided_remote expects a remote tensor'']), w)) \<and>
   (type (tensor_device self) = PrivateUse1 \<longrightarrow>
      as_strided_remote cpu_as_strided self size' stride storage_offset' w =
        (cpu_as_strided self size' stride storage_offset', w) \<and>
      (\<exists>t. as_strided_remote at_cpu_as_strided self size' stride storage_offset' w =
              (Inr t, w) \<and>
            storage t = storage self \<and> sizes t = size' \<and> strides t = stride \<and>
            storage_offset t = value_or storage_offset' (storage_offset self) \<and>
            tensor_device t = tensor_device self)) \<and>
   snd (as_strided_remote cpu_as_strided self size' stride storage_offset' w) = w \<and>
   calls (snd (as_strided_remote cpu_as_strided self size' stride storage_offset' w)) =
     calls w"
  by (simp add: as_strided_remote_def at_cpu_as_strided_def)

theorem as_strided_remote_view_witness:
  "type (tensor_device cpu_tensor) \<noteq> PrivateUse1 \<and>
   as_strided_remote at_cpu_as_strided cpu_tensor [2, 2] [1, 4] (Some 1) world0 =
     (Inl (TorchCheck [Str ''as_strided_remote expects a remote tensor'']), world0) \<and>
   type (tensor_device remote_tensor) = PrivateUse1 \<and>
   as_strided_remote at_cpu_as_strided remote_tensor [2, 2] [1, 4] (Some 1) world0 =
     (Inr (remote_tensor\<lparr>sizes := [2, 2], strides := [1, 4], storage_offset := 1\<rparr>), world0) \<and>
   storage (remote_tensor\<lparr>sizes := [2, 2], strides := [1, 4], storage_offset := 1\<rparr>) =
     storage remote_tensor"
  using as_strided_remote_view [of cpu_tensor at_cpu_as_strided "[2, 2]" "[1, 4]" "Some 1" world0]
    as_strided_remote_view [of remote_tensor at_cpu_as_strided "[2, 2]" "[1, 4]" "Some 1" world0]
  by (simp add: at_cpu_as_strided_def value_or_def cpu_tensor_def remote_tensor_def)

text \<open>
  C9. \<open>set_remote\<close> looks at no device: for every tensor it returns what the CPU
  implementation returns for the same arguments, and leaves the world as it is. For a tensor
  that is not on the remote type, where \<open>as_strided_remote\<close> ends in its precondition
  error, the result of \<open>set_remote\<close> is still the result of the CPU implementation.
\<close>

theorem set_remote_forwards:
  "set_remote cpu_set result storage' storage_offset' size' stride w =
     (cpu_set result storage' storage_offset' size' stride, w) \<and>
   (type (tensor_device result) \<noteq> PrivateUse1 \<longrightarrow>
      fst (as_strided_remote cpu_as_strided result size' stride (Some storage_offset') w) =
        Inl (TorchCheck [Str ''as_strided_remote expects a remote tensor'']) \<and>
      fst (set_remote cpu_set result storage' storage_offset' size' stride w) =
        cpu_set result storage' storage_offset' size' stride)"
  by (simp add: set_remote_def as_strided_remote_def)

theorem set_remote_forwards_witness:
  "type (tensor_device cpu_tensor) \<noteq> PrivateUse1 \<and>
   fst (as_strided_remote at_cpu_as_strided cpu_tensor [2, 2] [1, 4] (Some 1) world0) =
     Inl (TorchCheck [Str ''as_strided_remote expects a remote tensor'']) \<and>
   set_remote at_cpu_set cpu_tensor (storage remote_tensor) 1 [2, 2] [1, 4] world0 =
     (Inr (cpu_tensor\<lparr>storage := storage remote_tensor, storage_offset := 1,
                       sizes := [2, 2], strides := [1, 4]\<rparr>), world0)"
  using set_remote_forwards [of at_cpu_set cpu_tensor "storage remote_tensor" 1 "[2, 2]"
      "[1, 4]" world0 at_cpu_as_strided]
  by (simp add: at_cpu_set_def cpu_tensor_def)

end
